theory Spec2Isabelle
  imports Complex_Main
begin

section \<open>Data model of \<open>MissionControl.tsx\<close>\<close>

text \<open>
  A JavaScript \<open>number\<close> field is a \<^typ>\<open>real\<close>: the code only compares such fields
  (\<open>>=\<close>, \<open>>\<close>, \<open>===\<close>), and on finite doubles these comparisons agree with the order of
  the reals they denote. An optional field (\<open>name?: T\<close>) is an \<^typ>\<open>'a option\<close>, with
  \<^const>\<open>None\<close> for \<open>undefined\<close>.
\<close>

record TradePlan =
  market_id :: string
  event_ticker :: string
  title :: string
  category :: string
  side :: string
  entry_price :: real
  exit_price :: real
  stop_loss :: real
  potential_profit_cents :: real
  potential_loss_cents :: real
  risk_reward_ratio :: real
  expiry_time :: "string option"
  hours_to_expiry :: real
  is_0dte :: bool
  fee_per_contract :: real
  net_profit_after_fees :: real
  settlement_source :: string
  implied_win_rate :: real
  suggested_contracts :: real
  max_risk_dollars :: real

record ThoughtStep =
  step_number :: real
  thought :: string
  timestamp :: string
  search_query :: "string option"

record Strategy1VerifiedTrade =
  trade :: TradePlan
  source_name :: string
  source_url :: string
  source_data :: string
  kalshi_rule :: string
  current_value :: "string option"
  threshold :: "string option"
  distance_to_threshold :: "string option"
  ai_true_probability :: real
  market_implied_probability :: real
  edge :: real
  recommendation :: string
  confidence :: string
  reasoning :: string
  risk_factors :: "string list"
  time_sensitivity :: string
  adjusted_contracts :: real
  adjusted_risk_dollars :: real
  thought_chain :: "ThoughtStep list option"
  reasoning_audit :: "string option"
  web_searches_performed :: "real option"

record Strategy1VerifyResponse =
  scan_time :: string
  total_scanned :: real
  top_opportunities :: "Strategy1VerifiedTrade list"
  summary :: string

text \<open>\<open>TimelineStep\<close>: the field \<open>id\<close> is \<open>step_id\<close> here, and the icon component is its name.\<close>

record TimelineStep =
  step_id :: string
  label :: string
  icon :: string

definition timelineSteps :: "TimelineStep list" where
  "timelineSteps =
     [\<lparr>step_id = ''scan'', label = ''Scanning Markets'', icon = ''Search''\<rparr>,
      \<lparr>step_id = ''source'', label = ''Locating Sources'', icon = ''Globe''\<rparr>,
      \<lparr>step_id = ''extract'', label = ''Extracting Data'', icon = ''Database''\<rparr>,
      \<lparr>step_id = ''calculate'', label = ''Calculating Edge'', icon = ''Calculator''\<rparr>,
      \<lparr>step_id = ''rank'', label = ''Ranking Trades'', icon = ''Award''\<rparr>]"

section \<open>Helper functions\<close>

definition getRecommendationColor :: "string \<Rightarrow> string" where
  "getRecommendationColor rec =
     (if rec = ''EXECUTE'' then ''text-emerald-400 bg-emerald-500/20 border-emerald-500/30''
      else if rec = ''SKIP'' then ''text-rose-400 bg-rose-500/20 border-rose-500/30''
      else if rec = ''WAIT'' then ''text-amber-400 bg-amber-500/20 border-amber-500/30''
      else ''text-muted-foreground bg-muted'')"

definition getConfidenceColor :: "string \<Rightarrow> string" where
  "getConfidenceColor conf =
     (if conf = ''HIGH'' then ''text-emerald-400''
      else if conf = ''MEDIUM'' then ''text-amber-400''
      else if conf = ''LOW'' then ''text-rose-400''
      else ''text-muted-foreground'')"

definition getEdgeColor :: "real \<Rightarrow> string" where
  "getEdgeColor e =
     (if e \<ge> 5 then ''text-emerald-400''
      else if e \<ge> 0 then ''text-amber-400''
      else ''text-rose-400'')"

section \<open>Notices, thrown values and the outcome of a \<open>fetch\<close>\<close>

text \<open>
  \<open>toast.success\<close>, \<open>toast.info\<close> and \<open>toast.error\<close> append a notice to the log of the
  component that raised it. A template literal prints a count in decimal.
\<close>

datatype toast_kind = ToastSuccess | ToastInfo | ToastError

type_synonym toast = "toast_kind \<times> string"

definition digit_char :: "nat \<Rightarrow> char" where
  "digit_char d =
     (if d = 0 then CHR ''0'' else if d = 1 then CHR ''1'' else if d = 2 then CHR ''2''
      else if d = 3 then CHR ''3'' else if d = 4 then CHR ''4'' else if d = 5 then CHR ''5''
      else if d = 6 then CHR ''6'' else if d = 7 then CHR ''7'' else if d = 8 then CHR ''8''
      else CHR ''9'')"

fun show_nat :: "nat \<Rightarrow> string" where
  "show_nat n = (if n < 10 then [digit_char n] else show_nat (n div 10) @ [digit_char (n mod 10)])"

declare show_nat.simps [simp del]

text \<open>
  What a \<open>try\<close> block can throw: \<open>Error msg\<close> is \<open>new Error(msg)\<close> thrown by the code
  itself, \<open>Rejection\<close> the value a rejected \<open>fetch\<close> or \<open>res.json()\<close> promise carries, and
  \<open>TypeError\<close> a read of a property of \<open>undefined\<close>.
\<close>

datatype js_error = Error string | Rejection | TypeError

text \<open>
  The outcome of \<open>await fetch(url)\<close> followed by \<open>await res.json()\<close>: the request is
  rejected, or a response arrives with its HTTP status and its body, \<^const>\<open>None\<close> when the
  body does not parse. \<open>res.ok\<close> holds for the statuses 200 to 299.
\<close>

datatype 'a fetch_outcome = FetchRejected | Responded nat "'a option"

definition res_ok :: "nat \<Rightarrow> bool" where
  "res_ok status = (200 \<le> status \<and> status \<le> 299)"

section \<open>\<open>AIVerificationPanel\<close>\<close>

text \<open>
  The four \<open>useState\<close> cells of the panel, the handle \<open>stepInterval\<close> of the running call
  (\<^const>\<open>True\<close> from \<open>setInterval\<close> until \<open>clearInterval\<close>) and the notices raised so far.
\<close>

record panel_state =
  isLoading :: bool
  response :: "Strategy1VerifyResponse option"
  currentStep :: int
  expandedId :: "string option"
  stepInterval :: bool
  toasts :: "toast list"

definition panel_init :: panel_state where
  "panel_init = \<lparr>isLoading = False, response = None, currentStep = 0, expandedId = None,
     stepInterval = False, toasts = []\<rparr>"

text \<open>\<open>fetchTop3\<close> up to its \<open>await\<close>: four state updates and \<open>setInterval\<close>.\<close>

definition fetchTop3_start :: "panel_state \<Rightarrow> panel_state" where
  "fetchTop3_start s =
     s\<lparr>isLoading := True, currentStep := 0, response := None, expandedId := None,
       stepInterval := True\<rparr>"

text \<open>The callback of the interval: \<open>setCurrentStep(prev => Math.min(prev + 1, length - 1))\<close>.\<close>

definition stepInterval_callback :: "panel_state \<Rightarrow> panel_state" where
  "stepInterval_callback s =
     s\<lparr>currentStep := min (currentStep s + 1) (int (length timelineSteps) - 1)\<rparr>"

text \<open>
  The \<open>try\<close> block after the \<open>await\<close>: the state when the block ends, and the value thrown,
  if any. The body is taken to have the shape \<open>Strategy1VerifyResponse\<close> that the code
  asserts for it.
\<close>

definition fetchTop3_try ::
  "Strategy1VerifyResponse fetch_outcome \<Rightarrow> panel_state \<Rightarrow> panel_state \<times> js_error option" where
  "fetchTop3_try out s =
     (case out of
        FetchRejected \<Rightarrow> (s, Some Rejection)
      | Responded status body \<Rightarrow>
          if \<not> res_ok status then (s, Some (Error ''Verification failed''))
          else
            (case body of
               None \<Rightarrow> (s, Some Rejection)
             | Some data \<Rightarrow>
                 (let s1 = s\<lparr>stepInterval := False\<rparr>;
                      s2 = s1\<lparr>currentStep := int (length timelineSteps)\<rparr>;
                      s3 = s2\<lparr>response := Some data\<rparr>;
                      execCount = length (filter (\<lambda>t. recommendation t = ''EXECUTE'')
                                    (top_opportunities data));
                      s4 = (if execCount > 0 then
                              s3\<lparr>toasts := toasts s3 @
                                [(ToastSuccess, ''Found '' @ show_nat execCount @ '' executable trades!'')]\<rparr>
                            else if length (top_opportunities data) > 0 then
                              s3\<lparr>toasts := toasts s3 @
                                [(ToastInfo, ''Analysis complete - review recommendations'')]\<rparr>
                            else
                              s3\<lparr>toasts := toasts s3 @
                                [(ToastInfo, ''No opportunities found right now'')]\<rparr>);
                      s5 = (case top_opportunities data of
                              [] \<Rightarrow> s4
                            | first # _ \<Rightarrow> s4\<lparr>expandedId := Some (market_id (trade first))\<rparr>)
                  in (s5, None))))"

definition fetchTop3_catch :: "js_error \<Rightarrow> panel_state \<Rightarrow> panel_state \<times> js_error option" where
  "fetchTop3_catch err s =
     (s\<lparr>stepInterval := False, toasts := toasts s @ [(ToastError, ''Verification failed'')]\<rparr>,
      None)"

definition fetchTop3_finally :: "panel_state \<Rightarrow> panel_state" where
  "fetchTop3_finally s = s\<lparr>isLoading := False\<rparr>"

text \<open>
  \<open>fetchTop3\<close> from the \<open>await\<close> on: \<open>try\<close>, then \<open>catch\<close> when something was thrown, then
  \<open>finally\<close>. The second component is what the promise of \<open>fetchTop3\<close> is rejected with.
\<close>

definition fetchTop3_resume ::
  "Strategy1VerifyResponse fetch_outcome \<Rightarrow> panel_state \<Rightarrow> panel_state \<times> js_error option" where
  "fetchTop3_resume out s =
     (case fetchTop3_try out s of
        (s1, None) \<Rightarrow> (fetchTop3_finally s1, None)
      | (s1, Some err) \<Rightarrow>
          (case fetchTop3_catch err s1 of (s2, thrown) \<Rightarrow> (fetchTop3_finally s2, thrown)))"

definition toggleExpand :: "string \<Rightarrow> panel_state \<Rightarrow> panel_state" where
  "toggleExpand marketId s =
     s\<lparr>expandedId := (if expandedId s = Some marketId then None else Some marketId)\<rparr>"

subsection \<open>What the panel renders\<close>

text \<open>The props of one \<open>VerifiedTradeCard\<close>, in the order the cards are rendered.\<close>

record VerifiedTradeCard_props =
  verified :: Strategy1VerifiedTrade
  rank :: int
  isExpanded :: bool

definition render_cards :: "panel_state \<Rightarrow> VerifiedTradeCard_props list" where
  "render_cards s =
     (case response s of
        None \<Rightarrow> []
      | Some r \<Rightarrow>
          map (\<lambda>(i, v). \<lparr>verified = v, rank = int i + 1,
                          isExpanded = (expandedId s = Some (market_id (trade v)))\<rparr>)
            (enumerate 0 (top_opportunities r)))"

text \<open>The "No opportunities found" block and the "AI Ready" block.\<close>

definition shows_empty_result :: "panel_state \<Rightarrow> bool" where
  "shows_empty_result s =
     (case response s of None \<Rightarrow> False | Some r \<Rightarrow> length (top_opportunities r) = 0)"

definition shows_idle :: "panel_state \<Rightarrow> bool" where
  "shows_idle s = (\<not> isLoading s \<and> response s = None)"

text \<open>
  The audit section of an expanded card: absent, the steps of the thought chain, or the
  fallback text. A string is truthy when it is defined and not empty.
\<close>

datatype audit_body = ChainSteps "ThoughtStep list" | FallbackText "string option"

definition truthy :: "string option \<Rightarrow> bool" where
  "truthy x = (case x of None \<Rightarrow> False | Some t \<Rightarrow> t \<noteq> [])"

definition chain_present :: "Strategy1VerifiedTrade \<Rightarrow> bool" where
  "chain_present v = (case thought_chain v of None \<Rightarrow> False | Some c \<Rightarrow> length c > 0)"

definition audit_section :: "Strategy1VerifiedTrade \<Rightarrow> audit_body option" where
  "audit_section v =
     (if chain_present v \<or> truthy (reasoning_audit v) then
        Some (case thought_chain v of
                None \<Rightarrow> FallbackText (reasoning_audit v)
              | Some c \<Rightarrow> if length c > 0 then ChainSteps c else FallbackText (reasoning_audit v))
      else None)"

definition card_audit :: "VerifiedTradeCard_props \<Rightarrow> audit_body option" where
  "card_audit p = (if isExpanded p then audit_section (verified p) else None)"

subsection \<open>The panel as a transition system\<close>

text \<open>
  What can happen to the panel: a click on the button (disabled while loading), a tick of
  the interval (only while it is scheduled), the settling of the request in flight, and a
  click on the card at a position of the rendered list.
\<close>

datatype panel_event =
    ClickVerify
  | IntervalTick
  | FetchSettled "Strategy1VerifyResponse fetch_outcome"
  | ClickCard nat

definition panel_step :: "panel_event \<Rightarrow> panel_state \<Rightarrow> panel_state" where
  "panel_step e s =
     (case e of
        ClickVerify \<Rightarrow> if isLoading s then s else fetchTop3_start s
      | IntervalTick \<Rightarrow> if stepInterval s then stepInterval_callback s else s
      | FetchSettled out \<Rightarrow> if isLoading s then fst (fetchTop3_resume out s) else s
      | ClickCard i \<Rightarrow>
          (let cards = render_cards s
           in if i < length cards
              then toggleExpand (market_id (trade (verified (cards ! i)))) s else s))"

subsection \<open>What holds between two events\<close>

text \<open>
  The interval is scheduled exactly while the panel is loading, and a loading panel has no
  response, no expanded card and a step inside the timeline.
\<close>

definition panel_inv :: "panel_state \<Rightarrow> bool" where
  "panel_inv s =
     (stepInterval s = isLoading s \<and>
      (isLoading s \<longrightarrow>
         response s = None \<and> expandedId s = None \<and>
         0 \<le> currentStep s \<and> currentStep s < int (length timelineSteps)))"

section \<open>\<open>MarketMonitor\<close>\<close>

text \<open>
  The body of a scan response, as far as the code reads it: \<open>data.trades\<close>, which may be
  missing. The monitor has three \<open>useState\<close> cells; \<open>isLoading\<close> is \<open>scan_isLoading\<close> here,
  and \<open>scan_toasts\<close> are the notices the monitor raised.
\<close>

record scan_response =
  trades :: "TradePlan list option"

record monitor_state =
  opportunities :: "TradePlan list"
  scan_isLoading :: bool
  searchQuery :: string
  scan_toasts :: "toast list"

definition monitor_init :: monitor_state where
  "monitor_init = \<lparr>opportunities = [], scan_isLoading = False, searchQuery = [], scan_toasts = []\<rparr>"

definition fetchOpportunities_start :: "monitor_state \<Rightarrow> monitor_state" where
  "fetchOpportunities_start s = s\<lparr>scan_isLoading := True\<rparr>"

text \<open>
  The \<open>try\<close> block: \<open>setOpportunities(data.trades || [])\<close> comes before the read of
  \<open>data.trades.length\<close>, which throws when \<open>trades\<close> is missing.
\<close>

definition fetchOpportunities_try ::
  "scan_response fetch_outcome \<Rightarrow> monitor_state \<Rightarrow> monitor_state \<times> js_error option" where
  "fetchOpportunities_try out s =
     (case out of
        FetchRejected \<Rightarrow> (s, Some Rejection)
      | Responded status body \<Rightarrow>
          if \<not> res_ok status then (s, Some (Error ''Backend scan failed''))
          else
            (case body of
               None \<Rightarrow> (s, Some Rejection)
             | Some data \<Rightarrow>
                 (let s1 = s\<lparr>opportunities := (case trades data of Some ts \<Rightarrow> ts | None \<Rightarrow> [])\<rparr>
                  in case trades data of
                       None \<Rightarrow> (s1, Some TypeError)
                     | Some ts \<Rightarrow>
                         if length ts > 0 then
                           (s1\<lparr>scan_toasts := scan_toasts s1 @
                              [(ToastSuccess, ''Found '' @ show_nat (length ts) @ '' opportunities'')]\<rparr>,
                            None)
                         else (s1, None))))"

definition fetchOpportunities_catch ::
  "js_error \<Rightarrow> monitor_state \<Rightarrow> monitor_state \<times> js_error option" where
  "fetchOpportunities_catch err s =
     (s\<lparr>scan_toasts := scan_toasts s @ [(ToastError, ''Strategy Engine Offline'')]\<rparr>, None)"

definition fetchOpportunities_finally :: "monitor_state \<Rightarrow> monitor_state" where
  "fetchOpportunities_finally s = s\<lparr>scan_isLoading := False\<rparr>"

definition fetchOpportunities_resume ::
  "scan_response fetch_outcome \<Rightarrow> monitor_state \<Rightarrow> monitor_state \<times> js_error option" where
  "fetchOpportunities_resume out s =
     (case fetchOpportunities_try out s of
        (s1, None) \<Rightarrow> (fetchOpportunities_finally s1, None)
      | (s1, Some err) \<Rightarrow>
          (case fetchOpportunities_catch err s1 of
             (s2, thrown) \<Rightarrow> (fetchOpportunities_finally s2, thrown)))"

text \<open>
  The events of the monitor: a click on SCAN (disabled while loading), the settling of the
  scan in flight, and typing in the filter box.
\<close>

datatype monitor_event =
    ClickScan
  | ScanSettled "scan_response fetch_outcome"
  | FilterChange string

definition monitor_step :: "monitor_event \<Rightarrow> monitor_state \<Rightarrow> monitor_state" where
  "monitor_step e s =
     (case e of
        ClickScan \<Rightarrow> if scan_isLoading s then s else fetchOpportunities_start s
      | ScanSettled out \<Rightarrow>
          if scan_isLoading s then fst (fetchOpportunities_resume out s) else s
      | FilterChange q \<Rightarrow> s\<lparr>searchQuery := q\<rparr>)"

section \<open>The page \<open>MissionControl\<close>\<close>

text \<open>
  The page owns \<open>selectedOpportunity\<close> and renders one monitor and one panel, each with its
  own state. A click on an \<open>OpportunityCard\<close> calls \<open>onSelectOpportunity\<close>, which is the
  page's \<open>setSelectedOpportunity\<close>; the monitor gets \<open>selectedOpportunity?.market_id ?? null\<close>
  as \<open>selectedId\<close>.
\<close>

record page_state =
  selectedOpportunity :: "TradePlan option"
  monitor :: monitor_state
  panel :: panel_state

definition page_init :: page_state where
  "page_init = \<lparr>selectedOpportunity = None, monitor = monitor_init, panel = panel_init\<rparr>"

definition selectedId :: "page_state \<Rightarrow> string option" where
  "selectedId s = (case selectedOpportunity s of None \<Rightarrow> None | Some opp \<Rightarrow> Some (market_id opp))"

definition onSelectOpportunity :: "TradePlan \<Rightarrow> page_state \<Rightarrow> page_state" where
  "onSelectOpportunity opp s = s\<lparr>selectedOpportunity := Some opp\<rparr>"

datatype page_event =
    SelectOpportunity TradePlan
  | MonitorEvent monitor_event
  | PanelEvent panel_event

definition page_step :: "page_event \<Rightarrow> page_state \<Rightarrow> page_state" where
  "page_step e s =
     (case e of
        SelectOpportunity opp \<Rightarrow> onSelectOpportunity opp s
      | MonitorEvent me \<Rightarrow> s\<lparr>monitor := monitor_step me (monitor s)\<rparr>
      | PanelEvent pe \<Rightarrow> s\<lparr>panel := panel_step pe (panel s)\<rparr>)"

definition is_select :: "page_event \<Rightarrow> bool" where
  "is_select e = (case e of SelectOpportunity opp \<Rightarrow> True | MonitorEvent me \<Rightarrow> False
                  | PanelEvent pe \<Rightarrow> False)"

section \<open>\<open>Dashboard\<close>: the analysis trigger\<close>

text \<open>
  The strategy that \<open>setStrategy\<close> receives; its fields \<open>confidence\<close> and \<open>reasoning\<close> carry a
  prime here. The state cells of \<open>Dashboard\<close> that \<open>handleAnalyze\<close> and the ticker handlers
  touch, and the notices raised.
\<close>

record strategy =
  entryPrice :: real
  exitPrice :: real
  stopLoss :: real
  confidence' :: real
  reasoning' :: "string option"
  audit :: "string option"

record dashboard_state =
  selectedTicker :: string
  analyzedTicker :: "string option"
  recentSearches :: "string list"
  isAnalyzing :: bool
  current_strategy :: "strategy option"
  dashboard_toasts :: "toast list"

definition dashboard_init :: dashboard_state where
  "dashboard_init = \<lparr>selectedTicker = ''AAPL'', analyzedTicker = None, recentSearches = [],
     isAnalyzing = False, current_strategy = None, dashboard_toasts = []\<rparr>"

definition handleInputChange :: "string \<Rightarrow> dashboard_state \<Rightarrow> dashboard_state" where
  "handleInputChange ticker s = s\<lparr>selectedTicker := ticker\<rparr>"

definition handleSetTicker :: "string \<Rightarrow> dashboard_state \<Rightarrow> dashboard_state" where
  "handleSetTicker ticker s = s\<lparr>selectedTicker := ticker\<rparr>"

text \<open>
  \<open>handleAnalyze\<close> up to its \<open>await\<close>. An empty ticker is falsy: the handler raises a notice
  and returns. Otherwise \<open>slice(0, 5)\<close> keeps the first five of the new list.
\<close>

definition handleAnalyze_start :: "dashboard_state \<Rightarrow> dashboard_state" where
  "handleAnalyze_start s =
     (if selectedTicker s = [] then
        s\<lparr>dashboard_toasts := dashboard_toasts s @ [(ToastError, ''Please enter a ticker symbol.'')]\<rparr>
      else
        s\<lparr>isAnalyzing := True, current_strategy := None,
          analyzedTicker := Some (selectedTicker s),
          recentSearches :=
            take 5 (selectedTicker s # filter (\<lambda>t. t \<noteq> selectedTicker s) (recentSearches s))\<rparr>)"

text \<open>
  \<open>handleAnalyze\<close> from the \<open>await\<close> on. The body of the outcome is the strategy object the
  code builds from the parsed response (with \<open>parseFloat\<close> and \<open>Math.round\<close>).
\<close>

definition handleAnalyze_try ::
  "strategy fetch_outcome \<Rightarrow> dashboard_state \<Rightarrow> dashboard_state \<times> js_error option" where
  "handleAnalyze_try out s =
     (case out of
        FetchRejected \<Rightarrow> (s, Some Rejection)
      | Responded status body \<Rightarrow>
          if \<not> res_ok status then (s, Some (Error ''Analysis failed''))
          else
            (case body of
               None \<Rightarrow> (s, Some Rejection)
             | Some strat \<Rightarrow>
                 (s\<lparr>current_strategy := Some strat,
                    dashboard_toasts := dashboard_toasts s @
                      [(ToastSuccess, ''Strategy generated successfully!'')]\<rparr>, None)))"

definition handleAnalyze_catch ::
  "js_error \<Rightarrow> dashboard_state \<Rightarrow> dashboard_state \<times> js_error option" where
  "handleAnalyze_catch err s =
     (s\<lparr>dashboard_toasts := dashboard_toasts s @ [(ToastError, ''Failed to generate strategy.'')]\<rparr>,
      None)"

definition handleAnalyze_finally :: "dashboard_state \<Rightarrow> dashboard_state" where
  "handleAnalyze_finally s = s\<lparr>isAnalyzing := False\<rparr>"

definition handleAnalyze_resume ::
  "strategy fetch_outcome \<Rightarrow> dashboard_state \<Rightarrow> dashboard_state \<times> js_error option" where
  "handleAnalyze_resume out s =
     (case handleAnalyze_try out s of
        (s1, None) \<Rightarrow> (handleAnalyze_finally s1, None)
      | (s1, Some err) \<Rightarrow>
          (case handleAnalyze_catch err s1 of
             (s2, thrown) \<Rightarrow> (handleAnalyze_finally s2, thrown)))"

text \<open>
  The events of the dashboard: the two ticker handlers, a click on the analyst button
  (disabled while analyzing) and the settling of the analysis in flight.
\<close>

datatype dashboard_event =
    InputChange string
  | SetTicker string
  | ClickAnalyze
  | AnalyzeSettled "strategy fetch_outcome"

definition dashboard_step :: "dashboard_event \<Rightarrow> dashboard_state \<Rightarrow> dashboard_state" where
  "dashboard_step e s =
     (case e of
        InputChange t \<Rightarrow> handleInputChange t s
      | SetTicker t \<Rightarrow> handleSetTicker t s
      | ClickAnalyze \<Rightarrow> if isAnalyzing s then s else handleAnalyze_start s
      | AnalyzeSettled out \<Rightarrow>
          if isAnalyzing s then fst (handleAnalyze_resume out s) else s)"

subsection \<open>What holds of the recent searches between two events\<close>

definition recent_inv :: "dashboard_state \<Rightarrow> bool" where
  "recent_inv s = (distinct (recentSearches s) \<and> length (recentSearches s) \<le> 5)"

section \<open>Sample data\<close>

text \<open>
  Two verified trades \<open>A\<close> and \<open>B\<close> with a chosen edge, and the responses \<open>[A, B]\<close> with
  edges 8 and 3 and with edges 3 and 8.
\<close>

definition example_trade :: "string \<Rightarrow> TradePlan" where
  "example_trade m =
     \<lparr>market_id = m, event_ticker = ''KXBTC'', title = ''Bitcoin above 100k'',
      category = ''Crypto'', side = ''YES'', entry_price = 40, exit_price = 60, stop_loss = 30,
      potential_profit_cents = 20, potential_loss_cents = 10, risk_reward_ratio = 2,
      expiry_time = None, hours_to_expiry = 5, is_0dte = True, fee_per_contract = 1,
      net_profit_after_fees = 19, settlement_source = ''CF Benchmarks'',
      implied_win_rate = 40, suggested_contracts = 10, max_risk_dollars = 1\<rparr>"

definition example_verified :: "string \<Rightarrow> real \<Rightarrow> Strategy1VerifiedTrade" where
  "example_verified m e =
     \<lparr>trade = example_trade m, source_name = ''CF Benchmarks'', source_url = '''',
      source_data = ''BTC 101200'', kalshi_rule = ''Resolves YES above 100000'',
      current_value = None, threshold = None, distance_to_threshold = None,
      ai_true_probability = 40 + e, market_implied_probability = 40, edge = e,
      recommendation = ''EXECUTE'', confidence = ''HIGH'', reasoning = ''Spot is above'',
      risk_factors = [], time_sensitivity = ''Today'', adjusted_contracts = 10,
      adjusted_risk_dollars = 1, thought_chain = None, reasoning_audit = None,
      web_searches_performed = None\<rparr>"

definition example_response :: "Strategy1VerifiedTrade list \<Rightarrow> Strategy1VerifyResponse" where
  "example_response ts =
     \<lparr>scan_time = ''2025-01-01T00:00:00Z'', total_scanned = 12, top_opportunities = ts,
      summary = ''Done''\<rparr>"

definition response_AB :: Strategy1VerifyResponse where
  "response_AB = example_response [example_verified ''A'' 8, example_verified ''B'' 3]"

definition response_low_first :: Strategy1VerifyResponse where
  "response_low_first = example_response [example_verified ''A'' 3, example_verified ''B'' 8]"

text \<open>
  A panel that showed \<open>[A, B]\<close>, was asked to verify again and has seen one tick since.
\<close>

definition example_running :: panel_state where
  "example_running = fold panel_step
     [ClickVerify, FetchSettled (Responded 200 (Some response_AB)), ClickVerify, IntervalTick]
     panel_init"

text \<open>One step of a thought chain.\<close>

definition example_step :: ThoughtStep where
  "example_step = \<lparr>step_number = 1, thought = ''Check the spot price'',
     timestamp = ''2025-01-01T00:00:00Z'', search_query = Some ''btc price''\<rparr>"

text \<open>A monitor after one successful scan that found \<open>A\<close> and \<open>B\<close>.\<close>

definition example_scanned :: monitor_state where
  "example_scanned = fold monitor_step
     [ClickScan, ScanSettled (Responded 200
        (Some \<lparr>trades = Some [example_trade ''A'', example_trade ''B'']\<rparr>))] monitor_init"

text \<open>
  A dashboard after two failed analyses, of \<open>AAPL\<close> and then of \<open>MSFT\<close>, with \<open>AAPL\<close>
  entered again.
\<close>

definition example_dashboard :: dashboard_state where
  "example_dashboard = fold dashboard_step
     [ClickAnalyze, AnalyzeSettled FetchRejected, InputChange ''MSFT'', ClickAnalyze,
      AnalyzeSettled (Responded 500 None), SetTicker ''AAPL''] dashboard_init"

text \<open>
  A page whose panel shows \<open>[A, B]\<close> with \<open>A\<close> expanded and whose flat list has \<open>B\<close>
  selected.
\<close>

definition example_page :: page_state where
  "example_page = fold page_step
     [PanelEvent ClickVerify, PanelEvent (FetchSettled (Responded 200 (Some response_AB))),
      SelectOpportunity (example_trade ''B'')] page_init"

section \<open>Properties\<close>

subsection \<open>The edge colour\<close>

text \<open>
  C6. The edge colour function is defined for every real edge and depends on nothing else:
  an edge of at least 5 gets the strong-positive (emerald) class, an edge from 0 (included)
  up to 5 (excluded) the marginal (amber) class, and a negative edge the negative (rose) class.
\<close>

theorem getEdgeColor_tiers:
  "(5 \<le> e \<longrightarrow> getEdgeColor e = ''text-emerald-400'') \<and>
   (0 \<le> e \<and> e < 5 \<longrightarrow> getEdgeColor e = ''text-amber-400'') \<and>
   (e < 0 \<longrightarrow> getEdgeColor e = ''text-rose-400'')"
  by (simp add: getEdgeColor_def)

theorem getEdgeColor_tiers_witness:
  "getEdgeColor 5 = ''text-emerald-400'' \<and> getEdgeColor 0 = ''text-amber-400'' \<and>
   getEdgeColor (4.9) = ''text-amber-400'' \<and> getEdgeColor (- 0.1) = ''text-rose-400''"
  using getEdgeColor_tiers [of 5] getEdgeColor_tiers [of 0]
    getEdgeColor_tiers [of "4.9"] getEdgeColor_tiers [of "- 0.1"]
  by simp

subsection \<open>The verification panel\<close>

lemma timelineSteps_length: "length timelineSteps = 5"
  by (simp add: timelineSteps_def)

lemma fetchTop3_resume_failed:
  assumes "out = FetchRejected \<or> (\<exists>st b. out = Responded st b \<and> (\<not> res_ok st \<or> b = None))"
  shows "fetchTop3_resume out s =
           (s\<lparr>isLoading := False, stepInterval := False,
               toasts := toasts s @ [(ToastError, ''Verification failed'')]\<rparr>, None)"
  using assms
  by (auto simp: fetchTop3_resume_def fetchTop3_try_def fetchTop3_catch_def fetchTop3_finally_def)

lemma fetchTop3_resume_ok:
  assumes "res_ok st"
  shows "snd (fetchTop3_resume (Responded st (Some d)) s) = None"
    and "isLoading (fst (fetchTop3_resume (Responded st (Some d)) s)) = False"
    and "stepInterval (fst (fetchTop3_resume (Responded st (Some d)) s)) = False"
    and "currentStep (fst (fetchTop3_resume (Responded st (Some d)) s)) = int (length timelineSteps)"
    and "response (fst (fetchTop3_resume (Responded st (Some d)) s)) = Some d"
    and "expandedId (fst (fetchTop3_resume (Responded st (Some d)) s)) =
           (case top_opportunities d of [] \<Rightarrow> expandedId s
            | first # _ \<Rightarrow> Some (market_id (trade first)))"
  using assms
  by (simp_all add: fetchTop3_resume_def fetchTop3_try_def fetchTop3_finally_def Let_def
      split: list.splits)

lemma panel_inv_init: "panel_inv panel_init"
  by (simp add: panel_inv_def panel_init_def)

lemma render_cards_loading: "panel_inv s \<Longrightarrow> isLoading s \<Longrightarrow> render_cards s = []"
  by (simp add: panel_inv_def render_cards_def)

lemma panel_inv_step: "panel_inv s \<Longrightarrow> panel_inv (panel_step e s)"
proof (cases e)
  case ClickVerify
  assume "panel_inv s"
  then show ?thesis using ClickVerify
    by (simp add: panel_step_def panel_inv_def fetchTop3_start_def timelineSteps_length)
next
  case IntervalTick
  assume "panel_inv s"
  then show ?thesis using IntervalTick
    by (auto simp: panel_step_def panel_inv_def stepInterval_callback_def timelineSteps_length)
next
  case (FetchSettled out)
  assume inv: "panel_inv s"
  show ?thesis
  proof (cases "isLoading s")
    case False
    then show ?thesis using inv FetchSettled by (simp add: panel_step_def)
  next
    case True
    have "\<not> isLoading (fst (fetchTop3_resume out s)) \<and> \<not> stepInterval (fst (fetchTop3_resume out s))"
      by (auto simp: fetchTop3_resume_def fetchTop3_try_def fetchTop3_catch_def
          fetchTop3_finally_def Let_def split: fetch_outcome.splits option.splits list.splits)
    then show ?thesis using True FetchSettled
      by (simp add: panel_step_def panel_inv_def)
  qed
next
  case (ClickCard i)
  assume inv: "panel_inv s"
  show ?thesis
  proof (cases "isLoading s")
    case True
    then show ?thesis using inv ClickCard render_cards_loading [OF inv]
      by (simp add: panel_step_def)
  next
    case False
    then show ?thesis using inv ClickCard
      by (simp add: panel_step_def panel_inv_def toggleExpand_def Let_def)
  qed
qed

lemma panel_inv_fold: "panel_inv s \<Longrightarrow> panel_inv (fold panel_step es s)"
  by (induction es arbitrary: s) (simp_all add: panel_inv_step)

lemma panel_inv_reachable: "panel_inv (fold panel_step es panel_init)"
  by (rule panel_inv_fold [OF panel_inv_init])

lemma show_nat_2: "show_nat (Suc (Suc 0)) = ''2''"
  by (simp add: show_nat.simps digit_char_def)

lemmas example_defs = response_AB_def response_low_first_def example_response_def
  example_verified_def example_trade_def

lemmas panel_defs = panel_step_def panel_init_def fetchTop3_start_def fetchTop3_resume_def
  fetchTop3_try_def fetchTop3_catch_def fetchTop3_finally_def stepInterval_callback_def
  toggleExpand_def render_cards_def res_ok_def timelineSteps_def

lemma example_running_eq:
  "example_running = \<lparr>isLoading = True, response = None, currentStep = 1, expandedId = None,
     stepInterval = True, toasts = [(ToastSuccess, ''Found 2 executable trades!'')]\<rparr>"
  by (simp add: example_running_def panel_defs example_defs show_nat_2)

lemma after_AB:
  "panel_step (FetchSettled (Responded 200 (Some response_AB))) example_running =
     \<lparr>isLoading = False, response = Some response_AB, currentStep = 5, expandedId = Some ''A'',
      stepInterval = False,
      toasts = [(ToastSuccess, ''Found 2 executable trades!''),
                (ToastSuccess, ''Found 2 executable trades!'')]\<rparr>"
  by (simp add: example_running_eq panel_defs show_nat_2 example_defs)

lemma after_empty:
  "panel_step (FetchSettled (Responded 200 (Some (example_response [])))) example_running =
     \<lparr>isLoading = False, response = Some (example_response []), currentStep = 5,
      expandedId = None, stepInterval = False,
      toasts = [(ToastSuccess, ''Found 2 executable trades!''),
                (ToastInfo, ''No opportunities found right now'')]\<rparr>"
  by (simp add: example_running_eq panel_defs example_defs)

text \<open>
  C1, as amended. When a verification request fails (the fetch is rejected, or the response
  has a status outside 200 to 299), the panel has no result afterwards: the result shown
  before was cleared when the request started, and the failure neither restores it nor keeps
  a partial one. No card is expanded, the step counter keeps its value, the interval is
  cancelled, loading ends, the notice "Verification failed" is raised, and \<open>fetchTop3\<close>
  throws nothing.
\<close>

theorem fetchTop3_failure:
  assumes "s = fold panel_step es panel_init" and "isLoading s"
    and "out = FetchRejected \<or> out = Responded st body \<and> \<not> res_ok st"
  shows "snd (fetchTop3_resume out s) = None \<and>
         response (fst (fetchTop3_resume out s)) = None \<and>
         expandedId (fst (fetchTop3_resume out s)) = None \<and>
         currentStep (fst (fetchTop3_resume out s)) = currentStep s \<and>
         \<not> stepInterval (fst (fetchTop3_resume out s)) \<and>
         \<not> isLoading (fst (fetchTop3_resume out s)) \<and>
         toasts (fst (fetchTop3_resume out s)) = toasts s @ [(ToastError, ''Verification failed'')]"
proof -
  have inv: "panel_inv s"
    using assms(1) panel_inv_reachable by simp
  have cleared: "response s = None" "expandedId s = None"
    using inv assms(2) by (simp_all add: panel_inv_def)
  have "out = FetchRejected \<or> (\<exists>st b. out = Responded st b \<and> (\<not> res_ok st \<or> b = None))"
    using assms(3) by blast
  then have "fetchTop3_resume out s =
      (s\<lparr>isLoading := False, stepInterval := False,
         toasts := toasts s @ [(ToastError, ''Verification failed'')]\<rparr>, None)"
    by (rule fetchTop3_resume_failed)
  then show ?thesis using cleared by simp
qed

theorem fetchTop3_failure_witness:
  "isLoading example_running \<and> \<not> res_ok 500 \<and>
   snd (fetchTop3_resume (Responded 500 None) example_running) = None \<and>
   response (fst (fetchTop3_resume (Responded 500 None) example_running)) = None \<and>
   currentStep (fst (fetchTop3_resume (Responded 500 None) example_running)) = 1 \<and>
   \<not> stepInterval (fst (fetchTop3_resume (Responded 500 None) example_running)) \<and>
   toasts (fst (fetchTop3_resume (Responded 500 None) example_running)) =
     [(ToastSuccess, ''Found 2 executable trades!''), (ToastError, ''Verification failed'')]"
proof -
  have run: "isLoading example_running"
    by (simp add: example_running_eq)
  have bad: "\<not> res_ok 500"
    by (simp add: res_ok_def)
  have "Responded 500 None = FetchRejected \<or>
        Responded 500 None = Responded 500 (None :: Strategy1VerifyResponse option) \<and> \<not> res_ok 500"
    using bad by simp
  from fetchTop3_failure [OF example_running_def run this] run bad
  show ?thesis by (simp add: example_running_eq)
qed

text \<open>
  The claim as written fails: a panel that shows \<open>[A, B]\<close> shows no result after a second
  request that ends with status 500.
\<close>

theorem fetchTop3_failure_counterexample:
  "response (fold panel_step [ClickVerify, FetchSettled (Responded 200 (Some response_AB))]
      panel_init) = Some response_AB \<and>
   response (fold panel_step [ClickVerify, FetchSettled (Responded 200 (Some response_AB)),
      ClickVerify, FetchSettled (Responded 500 None)] panel_init) = None"
  by (simp add: panel_defs example_defs show_nat_2)

text \<open>
  C2. The timeline has 5 stages. A request starts with step 0; while the panel is loading
  the step is at least 0 and below 5, a tick never lowers it and never takes it to 5, and
  the only event that takes it to 5 is the arrival of a successful response, which always
  does.
\<close>

theorem currentStep_bounds:
  assumes "s = fold panel_step es panel_init"
  shows "int (length timelineSteps) = 5 \<and>
         currentStep (fetchTop3_start s) = 0 \<and>
         (isLoading s \<longrightarrow> 0 \<le> currentStep s \<and> currentStep s < int (length timelineSteps)) \<and>
         (isLoading s \<longrightarrow>
            currentStep s \<le> currentStep (panel_step IntervalTick s) \<and>
            currentStep (panel_step IntervalTick s) < int (length timelineSteps)) \<and>
         (isLoading s \<and> currentStep (panel_step e s) = int (length timelineSteps) \<longrightarrow>
            (\<exists>st d. e = FetchSettled (Responded st (Some d)) \<and> res_ok st)) \<and>
         (isLoading s \<and> res_ok st \<longrightarrow>
            currentStep (panel_step (FetchSettled (Responded st (Some d))) s) =
              int (length timelineSteps))"
proof -
  have inv: "panel_inv s"
    using assms panel_inv_reachable by simp
  have c1: "int (length timelineSteps) = 5"
    by (simp add: timelineSteps_length)
  have c2: "currentStep (fetchTop3_start s) = 0"
    by (simp add: fetchTop3_start_def)
  have c3: "isLoading s \<longrightarrow> 0 \<le> currentStep s \<and> currentStep s < int (length timelineSteps)"
    using inv by (simp add: panel_inv_def)
  have c4: "isLoading s \<longrightarrow>
            currentStep s \<le> currentStep (panel_step IntervalTick s) \<and>
            currentStep (panel_step IntervalTick s) < int (length timelineSteps)"
    using inv by (auto simp: panel_inv_def panel_step_def stepInterval_callback_def)
  have c5: "isLoading s \<and> currentStep (panel_step e s) = int (length timelineSteps) \<longrightarrow>
            (\<exists>st d. e = FetchSettled (Responded st (Some d)) \<and> res_ok st)"
  proof
    assume a: "isLoading s \<and> currentStep (panel_step e s) = int (length timelineSteps)"
    then have run: "isLoading s" and top: "currentStep (panel_step e s) = int (length timelineSteps)"
      by simp_all
    have low: "currentStep s < int (length timelineSteps)"
      using c3 run by simp
    show "\<exists>st d. e = FetchSettled (Responded st (Some d)) \<and> res_ok st"
    proof (cases e)
      case ClickVerify
      then show ?thesis using run top low by (simp add: panel_step_def)
    next
      case IntervalTick
      then show ?thesis using run top c4 by simp
    next
      case (FetchSettled out)
      show ?thesis
      proof (cases "out = FetchRejected \<or> (\<exists>st b. out = Responded st b \<and> (\<not> res_ok st \<or> b = None))")
        case True
        from fetchTop3_resume_failed [OF True, of s] FetchSettled run top low
        show ?thesis by (simp add: panel_step_def)
      next
        case False
        then show ?thesis using FetchSettled
          by (cases out) auto
      qed
    next
      case (ClickCard i)
      then show ?thesis using run top low render_cards_loading [OF inv run]
        by (simp add: panel_step_def)
    qed
  qed
  have c6: "isLoading s \<and> res_ok st \<longrightarrow>
            currentStep (panel_step (FetchSettled (Responded st (Some d))) s) =
              int (length timelineSteps)"
    using fetchTop3_resume_ok(4) [of st d s] by (simp add: panel_step_def)
  show ?thesis using c1 c2 c3 c4 c5 c6 by blast
qed

theorem currentStep_bounds_witness:
  "isLoading example_running \<and> res_ok 200 \<and>
   currentStep (fetchTop3_start example_running) = 0 \<and>
   currentStep example_running = 1 \<and>
   currentStep (panel_step IntervalTick example_running) = 2 \<and>
   currentStep (fold panel_step (replicate 9 IntervalTick) example_running) = 4 \<and>
   currentStep (panel_step (FetchSettled (Responded 200 (Some response_AB))) example_running) = 5"
proof -
  have run: "isLoading example_running"
    by (simp add: example_running_eq)
  have ok: "res_ok 200"
    by (simp add: res_ok_def)
  have ticks: "currentStep (fold panel_step (replicate 9 IntervalTick) example_running) = 4"
    by (simp add: example_running_eq panel_step_def stepInterval_callback_def timelineSteps_def
        numeral_eq_Suc)
  from currentStep_bounds [OF example_running_def, of IntervalTick 200 response_AB] run ok ticks
  show ?thesis
    by (simp add: example_running_eq panel_step_def stepInterval_callback_def timelineSteps_def)
qed

text \<open>
  C3. When a successful response arrives: if its list is not empty, the identifier of its
  first trade is the one expanded identifier, so the cards with that identifier are the
  expanded ones; if its list is empty, nothing is expanded, no card is rendered and the
  panel shows the empty-result block and not the idle block, which the panel shows before
  any run.
\<close>

theorem auto_expand_first:
  assumes "s = fold panel_step es panel_init" and "isLoading s" and "res_ok st"
    and "s' = panel_step (FetchSettled (Responded st (Some d))) s"
  shows "(top_opportunities d = first # rest \<longrightarrow>
            set_option (expandedId s') = {market_id (trade first)} \<and>
            (\<forall>p \<in> set (render_cards s').
               isExpanded p = (market_id (trade (verified p)) = market_id (trade first))) \<and>
            \<not> shows_empty_result s' \<and> \<not> shows_idle s') \<and>
         (top_opportunities d = [] \<longrightarrow>
            expandedId s' = None \<and> render_cards s' = [] \<and>
            shows_empty_result s' \<and> \<not> shows_idle s') \<and>
         shows_idle panel_init \<and> \<not> shows_empty_result panel_init"
proof -
  have inv: "panel_inv s"
    using assms(1) panel_inv_reachable by simp
  have none: "expandedId s = None"
    using inv assms(2) by (simp add: panel_inv_def)
  have s': "s' = fst (fetchTop3_resume (Responded st (Some d)) s)"
    using assms(2,4) by (simp add: panel_step_def)
  have resp: "response s' = Some d"
    using fetchTop3_resume_ok(5) [OF assms(3)] s' by simp
  have exp: "expandedId s' =
      (case top_opportunities d of [] \<Rightarrow> None | first # _ \<Rightarrow> Some (market_id (trade first)))"
    using fetchTop3_resume_ok(6) [OF assms(3), of d s] s' none by (simp split: list.splits)
  have a: "top_opportunities d = first # rest \<longrightarrow>
            set_option (expandedId s') = {market_id (trade first)} \<and>
            (\<forall>p \<in> set (render_cards s').
               isExpanded p = (market_id (trade (verified p)) = market_id (trade first))) \<and>
            \<not> shows_empty_result s' \<and> \<not> shows_idle s'"
    using resp exp
    by (auto simp: render_cards_def shows_empty_result_def shows_idle_def in_set_enumerate_eq)
  have b: "top_opportunities d = [] \<longrightarrow>
            expandedId s' = None \<and> render_cards s' = [] \<and>
            shows_empty_result s' \<and> \<not> shows_idle s'"
    using resp exp
    by (simp add: render_cards_def shows_empty_result_def shows_idle_def)
  have c: "shows_idle panel_init \<and> \<not> shows_empty_result panel_init"
    by (simp add: shows_idle_def shows_empty_result_def panel_init_def)
  show ?thesis using a b c by blast
qed

theorem auto_expand_first_witness:
  "isLoading example_running \<and> res_ok 200 \<and>
   expandedId (panel_step (FetchSettled (Responded 200 (Some response_AB))) example_running)
     = Some ''A'' \<and>
   map isExpanded (render_cards
     (panel_step (FetchSettled (Responded 200 (Some response_AB))) example_running))
     = [True, False] \<and>
   expandedId (panel_step (FetchSettled (Responded 200 (Some (example_response []))))
     example_running) = None \<and>
   shows_empty_result (panel_step (FetchSettled (Responded 200 (Some (example_response []))))
     example_running)"
proof -
  have run: "isLoading example_running"
    by (simp add: example_running_eq)
  have ok: "res_ok 200"
    by (simp add: res_ok_def)
  have tops: "top_opportunities response_AB = [example_verified ''A'' 8, example_verified ''B'' 3]"
    by (simp add: example_defs)
  have empty: "top_opportunities (example_response []) = []"
    by (simp add: example_defs)
  have cards: "map isExpanded (render_cards
     (panel_step (FetchSettled (Responded 200 (Some response_AB))) example_running))
     = [True, False]"
    unfolding after_AB by (simp add: render_cards_def example_defs)
  note full = auto_expand_first [OF example_running_def run ok refl,
      of response_AB "example_verified ''A'' 8" "[example_verified ''B'' 3]"]
  note none = auto_expand_first [OF example_running_def run ok refl, of "example_response []"]
  from full none tops empty run ok cards show ?thesis
    by (simp add: after_AB)
qed

lemma map_verified_render_cards:
  "response s = Some r \<Longrightarrow> map verified (render_cards s) = top_opportunities r"
  by (simp add: render_cards_def enumerate_eq_zip o_def split_def)

lemma map_rank_render_cards:
  "response s = Some r \<Longrightarrow>
   map rank (render_cards s) = map (\<lambda>i. int i + 1) [0..<length (top_opportunities r)]"
  by (simp add: render_cards_def enumerate_eq_zip o_def split_def
      flip: map_map [of "\<lambda>i. int i + 1" fst, unfolded o_def])

lemma after_low_first:
  "panel_step (FetchSettled (Responded 200 (Some response_low_first))) example_running =
     \<lparr>isLoading = False, response = Some response_low_first, currentStep = 5,
      expandedId = Some ''A'', stepInterval = False,
      toasts = [(ToastSuccess, ''Found 2 executable trades!''),
                (ToastSuccess, ''Found 2 executable trades!'')]\<rparr>"
  by (simp add: example_running_eq panel_defs show_nat_2 example_defs)

text \<open>
  C4. After a successful response the cards are the trades of the response in the order
  of the response, and the card at position \<open>i\<close> (from 0) shows rank \<open>i + 1\<close>, whatever the
  edges are.
\<close>

theorem rank_is_position:
  assumes "isLoading s" and "res_ok st"
    and "s' = panel_step (FetchSettled (Responded st (Some d))) s"
  shows "map verified (render_cards s') = top_opportunities d \<and>
         (\<forall>i < length (top_opportunities d).
            verified (render_cards s' ! i) = top_opportunities d ! i \<and>
            rank (render_cards s' ! i) = int i + 1)"
proof -
  have s': "s' = fst (fetchTop3_resume (Responded st (Some d)) s)"
    using assms(1,3) by (simp add: panel_step_def)
  have resp: "response s' = Some d"
    using fetchTop3_resume_ok(5) [OF assms(2)] s' by simp
  have len: "length (render_cards s') = length (top_opportunities d)"
    using resp by (simp add: render_cards_def)
  have v: "map verified (render_cards s') = top_opportunities d"
    using resp by (rule map_verified_render_cards)
  have r: "map rank (render_cards s') = map (\<lambda>i. int i + 1) [0..<length (top_opportunities d)]"
    using resp by (rule map_rank_render_cards)
  have "verified (render_cards s' ! i) = top_opportunities d ! i \<and>
        rank (render_cards s' ! i) = int i + 1" if "i < length (top_opportunities d)" for i
  proof -
    have "verified (render_cards s' ! i) = map verified (render_cards s') ! i"
      using that len by simp
    moreover have "rank (render_cards s' ! i) = map rank (render_cards s') ! i"
      using that len by simp
    ultimately show ?thesis using v r that by simp
  qed
  then show ?thesis using v by blast
qed

theorem rank_is_position_witness:
  "isLoading example_running \<and> res_ok 200 \<and>
   map (\<lambda>p. (market_id (trade (verified p)), edge (verified p), rank p))
     (render_cards (panel_step (FetchSettled (Responded 200 (Some response_low_first)))
        example_running)) = [(''A'', 3, 1), (''B'', 8, 2)]"
proof -
  have run: "isLoading example_running"
    by (simp add: example_running_eq)
  have ok: "res_ok 200"
    by (simp add: res_ok_def)
  have cards: "map (\<lambda>p. (market_id (trade (verified p)), edge (verified p), rank p))
     (render_cards (panel_step (FetchSettled (Responded 200 (Some response_low_first)))
        example_running)) = [(''A'', 3, 1), (''B'', 8, 2)]"
    unfolding after_low_first by (simp add: render_cards_def example_defs)
  from rank_is_position [OF run ok refl, of response_low_first] run ok cards
  show ?thesis by simp
qed

text \<open>
  C5, as amended. Toggling \<open>m\<close> while \<open>m\<close> is expanded collapses it. Toggling \<open>m\<close> twice
  from a state where \<open>m\<close> is not expanded leaves nothing expanded. Toggling \<open>m\<close> twice from
  a state where \<open>m\<close> is expanded leaves \<open>m\<close> expanded.
\<close>

theorem toggleExpand_twice:
  "(expandedId s = Some m \<longrightarrow> expandedId (toggleExpand m s) = None) \<and>
   (expandedId s \<noteq> Some m \<longrightarrow> expandedId (toggleExpand m (toggleExpand m s)) = None) \<and>
   (expandedId s = Some m \<longrightarrow> expandedId (toggleExpand m (toggleExpand m s)) = Some m)"
  by (simp add: toggleExpand_def)

theorem toggleExpand_twice_witness:
  "expandedId (toggleExpand ''A'' (panel_init\<lparr>expandedId := Some ''A''\<rparr>)) = None \<and>
   expandedId (toggleExpand ''A'' (toggleExpand ''A'' (panel_init\<lparr>expandedId := Some ''B''\<rparr>))) = None \<and>
   expandedId (toggleExpand ''A'' (toggleExpand ''A'' panel_init)) = None \<and>
   expandedId (toggleExpand ''A'' (toggleExpand ''A'' (panel_init\<lparr>expandedId := Some ''A''\<rparr>))) = Some ''A''"
  using toggleExpand_twice [of "panel_init\<lparr>expandedId := Some ''A''\<rparr>" "''A''"]
    toggleExpand_twice [of "panel_init\<lparr>expandedId := Some ''B''\<rparr>" "''A''"]
    toggleExpand_twice [of panel_init "''A''"]
  by (simp add: panel_init_def)

text \<open>
  The claim as written fails for a start with \<open>m\<close> expanded: after the response \<open>[A, B]\<close>
  the card \<open>A\<close> is expanded, and after two clicks on it \<open>A\<close> is expanded, not collapsed.
\<close>

theorem toggleExpand_twice_counterexample:
  "expandedId (fold panel_step [ClickVerify, FetchSettled (Responded 200 (Some response_AB))]
      panel_init) = Some ''A'' \<and>
   expandedId (fold panel_step [ClickVerify, FetchSettled (Responded 200 (Some response_AB)),
      ClickCard 0, ClickCard 0] panel_init) = Some ''A''"
  by (simp add: panel_defs example_defs show_nat_2)

subsection \<open>The audit section of a card\<close>

text \<open>
  C9, as amended. A trade whose thought chain has at least one step renders the steps of
  the chain, whatever its fallback text is. A trade whose thought chain is present but
  empty, with a non-empty fallback text, renders the fallback text.
\<close>

theorem chain_priority:
  "(thought_chain v = Some c \<and> c \<noteq> [] \<longrightarrow> audit_section v = Some (ChainSteps c)) \<and>
   (thought_chain v = Some [] \<and> reasoning_audit v = Some a \<and> a \<noteq> [] \<longrightarrow>
      audit_section v = Some (FallbackText (Some a)))"
  by (simp add: audit_section_def chain_present_def truthy_def)

theorem chain_priority_witness:
  "audit_section ((example_verified ''A'' 8)
      \<lparr>thought_chain := Some [example_step], reasoning_audit := Some ''audit text''\<rparr>)
     = Some (ChainSteps [example_step]) \<and>
   audit_section ((example_verified ''A'' 8)
      \<lparr>thought_chain := Some [], reasoning_audit := Some ''audit text''\<rparr>)
     = Some (FallbackText (Some ''audit text''))"
  using chain_priority [of "(example_verified ''A'' 8)
      \<lparr>thought_chain := Some [example_step], reasoning_audit := Some ''audit text''\<rparr>"
      "[example_step]"]
    chain_priority [of "(example_verified ''A'' 8)
      \<lparr>thought_chain := Some [], reasoning_audit := Some ''audit text''\<rparr>" _ "''audit text''"]
  by simp

text \<open>
  The claim as written fails for a trade that carries an empty chain and a fallback text:
  both fields are present and the fallback text is rendered.
\<close>

theorem chain_priority_counterexample:
  "thought_chain ((example_verified ''A'' 8)
      \<lparr>thought_chain := Some [], reasoning_audit := Some ''audit text''\<rparr>) = Some [] \<and>
   reasoning_audit ((example_verified ''A'' 8)
      \<lparr>thought_chain := Some [], reasoning_audit := Some ''audit text''\<rparr>) = Some ''audit text'' \<and>
   audit_section ((example_verified ''A'' 8)
      \<lparr>thought_chain := Some [], reasoning_audit := Some ''audit text''\<rparr>)
     = Some (FallbackText (Some ''audit text''))"
  by (simp add: audit_section_def chain_present_def truthy_def)

subsection \<open>The market monitor\<close>

lemma fetchOpportunities_resume_failed:
  assumes "out = FetchRejected \<or> (\<exists>st b. out = Responded st b \<and> (\<not> res_ok st \<or> b = None))"
  shows "fetchOpportunities_resume out s =
           (s\<lparr>scan_isLoading := False,
               scan_toasts := scan_toasts s @ [(ToastError, ''Strategy Engine Offline'')]\<rparr>, None)"
  using assms
  by (auto simp: fetchOpportunities_resume_def fetchOpportunities_try_def
      fetchOpportunities_catch_def fetchOpportunities_finally_def)

lemmas monitor_defs = monitor_step_def monitor_init_def fetchOpportunities_start_def
  fetchOpportunities_resume_def fetchOpportunities_try_def fetchOpportunities_catch_def
  fetchOpportunities_finally_def res_ok_def

lemma example_scanned_eq:
  "example_scanned = \<lparr>opportunities = [example_trade ''A'', example_trade ''B''],
     scan_isLoading = False, searchQuery = [],
     scan_toasts = [(ToastSuccess, ''Found 2 opportunities'')]\<rparr>"
  by (simp add: example_scanned_def monitor_defs show_nat.simps digit_char_def)

text \<open>
  C7. When a scan fails (the fetch is rejected, or the response has a status outside 200
  to 299, such as 500), the opportunity list is the one from before the call, the notice
  "Strategy Engine Offline" is raised, loading ends and \<open>fetchOpportunities\<close> throws
  nothing. Before any scan the list is empty, and it is empty after a first scan that
  fails.
\<close>

theorem scan_failure_keeps_list:
  assumes "out = FetchRejected \<or> out = Responded st body \<and> \<not> res_ok st"
  shows "snd (fetchOpportunities_resume out (fetchOpportunities_start s)) = None \<and>
         opportunities (fst (fetchOpportunities_resume out (fetchOpportunities_start s)))
           = opportunities s \<and>
         scan_toasts (fst (fetchOpportunities_resume out (fetchOpportunities_start s)))
           = scan_toasts s @ [(ToastError, ''Strategy Engine Offline'')] \<and>
         \<not> scan_isLoading (fst (fetchOpportunities_resume out (fetchOpportunities_start s))) \<and>
         opportunities monitor_init = [] \<and>
         opportunities (fold monitor_step [ClickScan, ScanSettled out] monitor_init) = []"
proof -
  have f: "out = FetchRejected \<or> (\<exists>st b. out = Responded st b \<and> (\<not> res_ok st \<or> b = None))"
    using assms by blast
  have r: "fetchOpportunities_resume out (fetchOpportunities_start s) =
      ((fetchOpportunities_start s)\<lparr>scan_isLoading := False,
         scan_toasts := scan_toasts (fetchOpportunities_start s) @
           [(ToastError, ''Strategy Engine Offline'')]\<rparr>, None)"
    using f by (rule fetchOpportunities_resume_failed)
  have i: "fetchOpportunities_resume out (fetchOpportunities_start monitor_init) =
      ((fetchOpportunities_start monitor_init)\<lparr>scan_isLoading := False,
         scan_toasts := scan_toasts (fetchOpportunities_start monitor_init) @
           [(ToastError, ''Strategy Engine Offline'')]\<rparr>, None)"
    using f by (rule fetchOpportunities_resume_failed)
  have never: "opportunities (fold monitor_step [ClickScan, ScanSettled out] monitor_init) = []"
    using i by (simp add: monitor_step_def monitor_init_def fetchOpportunities_start_def)
  show ?thesis using r never
    by (simp add: fetchOpportunities_start_def monitor_init_def)
qed

theorem scan_failure_keeps_list_witness:
  "\<not> res_ok 500 \<and>
   opportunities (fst (fetchOpportunities_resume (Responded 500 None)
      (fetchOpportunities_start example_scanned))) = [example_trade ''A'', example_trade ''B''] \<and>
   scan_toasts (fst (fetchOpportunities_resume (Responded 500 None)
      (fetchOpportunities_start example_scanned)))
     = [(ToastSuccess, ''Found 2 opportunities''), (ToastError, ''Strategy Engine Offline'')] \<and>
   snd (fetchOpportunities_resume (Responded 500 None)
      (fetchOpportunities_start example_scanned)) = None"
proof -
  have bad: "\<not> res_ok 500"
    by (simp add: res_ok_def)
  have "Responded 500 None = FetchRejected \<or>
        Responded 500 None = Responded 500 (None :: scan_response option) \<and> \<not> res_ok 500"
    using bad by simp
  from scan_failure_keeps_list [OF this, of example_scanned] bad
  show ?thesis by (simp add: example_scanned_eq)
qed

subsection \<open>The page\<close>

lemma panel_fold_cong:
  "panel s = panel t \<Longrightarrow>
   panel (fold page_step es s) = panel (fold page_step [e\<leftarrow>es. \<not> is_select e] t)"
proof (induction es arbitrary: s t)
  case Nil
  then show ?case by simp
next
  case (Cons e es)
  show ?case
  proof (cases e)
    case (SelectOpportunity opp)
    have "panel (page_step e s) = panel t"
      using Cons.prems SelectOpportunity by (simp add: page_step_def onSelectOpportunity_def)
    then show ?thesis using Cons.IH SelectOpportunity by (simp add: is_select_def)
  next
    case (MonitorEvent me)
    have "panel (page_step e s) = panel (page_step e t)"
      using Cons.prems MonitorEvent by (simp add: page_step_def)
    then show ?thesis using Cons.IH MonitorEvent by (simp add: is_select_def)
  next
    case (PanelEvent pe)
    have "panel (page_step e s) = panel (page_step e t)"
      using Cons.prems PanelEvent by (simp add: page_step_def)
    then show ?thesis using Cons.IH PanelEvent by (simp add: is_select_def)
  qed
qed

lemma selected_fold_cong:
  "selectedOpportunity s = selectedOpportunity t \<Longrightarrow>
   selectedOpportunity (fold page_step es s) =
   selectedOpportunity (fold page_step [e\<leftarrow>es. is_select e] t)"
proof (induction es arbitrary: s t)
  case Nil
  then show ?case by simp
next
  case (Cons e es)
  show ?case
  proof (cases e)
    case (SelectOpportunity opp)
    have "selectedOpportunity (page_step e s) = selectedOpportunity (page_step e t)"
      using SelectOpportunity by (simp add: page_step_def onSelectOpportunity_def)
    then show ?thesis using Cons.IH SelectOpportunity by (simp add: is_select_def)
  next
    case (MonitorEvent me)
    have "selectedOpportunity (page_step e s) = selectedOpportunity t"
      using Cons.prems MonitorEvent by (simp add: page_step_def)
    then show ?thesis using Cons.IH MonitorEvent by (simp add: is_select_def)
  next
    case (PanelEvent pe)
    have "selectedOpportunity (page_step e s) = selectedOpportunity t"
      using Cons.prems PanelEvent by (simp add: page_step_def)
    then show ?thesis using Cons.IH PanelEvent by (simp add: is_select_def)
  qed
qed

lemma example_page_eq:
  "example_page = \<lparr>selectedOpportunity = Some (example_trade ''B''), monitor = monitor_init,
     panel = \<lparr>isLoading = False, response = Some response_AB, currentStep = 5,
       expandedId = Some ''A'', stepInterval = False,
       toasts = [(ToastSuccess, ''Found 2 executable trades!'')]\<rparr>\<rparr>"
  by (simp add: example_page_def page_step_def page_init_def onSelectOpportunity_def
      panel_defs example_defs show_nat_2)

text \<open>
  C8. Selecting an opportunity in the flat list sets the selection of the page and leaves
  the monitor and the whole panel, so also the expanded identifier, as they were. A click
  on a verified card, and a toggle of any identifier, leave the selection as it was. Over
  any sequence of page events, the expanded identifier is the one reached without the
  selections, and the selection is the one reached by the selections alone.
\<close>

theorem selection_and_expansion_decoupled:
  "panel (page_step (SelectOpportunity opp) s) = panel s \<and>
   monitor (page_step (SelectOpportunity opp) s) = monitor s \<and>
   selectedId (page_step (SelectOpportunity opp) s) = Some (market_id opp) \<and>
   expandedId (panel (page_step (SelectOpportunity opp) s)) = expandedId (panel s) \<and>
   panel (page_step (PanelEvent (ClickCard i)) s) = panel_step (ClickCard i) (panel s) \<and>
   selectedId (page_step (PanelEvent (ClickCard i)) s) = selectedId s \<and>
   selectedId (s\<lparr>panel := toggleExpand m (panel s)\<rparr>) = selectedId s \<and>
   expandedId (panel (fold page_step es s)) =
     expandedId (panel (fold page_step [e\<leftarrow>es. \<not> is_select e] s)) \<and>
   selectedId (fold page_step es s) = selectedId (fold page_step [e\<leftarrow>es. is_select e] s)"
proof -
  have a: "panel (fold page_step es s) = panel (fold page_step [e\<leftarrow>es. \<not> is_select e] s)"
    by (rule panel_fold_cong) simp
  have b: "selectedOpportunity (fold page_step es s) =
           selectedOpportunity (fold page_step [e\<leftarrow>es. is_select e] s)"
    by (rule selected_fold_cong) simp
  show ?thesis using a b
    by (simp add: page_step_def onSelectOpportunity_def selectedId_def)
qed

theorem selection_and_expansion_decoupled_witness:
  "expandedId (panel example_page) = Some ''A'' \<and> selectedId example_page = Some ''B'' \<and>
   expandedId (panel (page_step (SelectOpportunity (example_trade ''C'')) example_page))
     = Some ''A'' \<and>
   selectedId (page_step (SelectOpportunity (example_trade ''C'')) example_page) = Some ''C'' \<and>
   expandedId (panel (page_step (PanelEvent (ClickCard 0)) example_page)) = None \<and>
   selectedId (page_step (PanelEvent (ClickCard 0)) example_page) = Some ''B''"
proof -
  have sel: "selectedId example_page = Some ''B''"
    by (simp add: example_page_eq selectedId_def example_trade_def)
  have exp: "expandedId (panel example_page) = Some ''A''"
    by (simp add: example_page_eq)
  have click: "expandedId (panel_step (ClickCard 0) (panel example_page)) = None"
    unfolding example_page_eq
    by (simp add: panel_step_def render_cards_def toggleExpand_def example_defs)
  have c: "market_id (example_trade ''C'') = ''C''"
    by (simp add: example_trade_def)
  from selection_and_expansion_decoupled [of "example_trade ''C''" example_page 0] sel exp click c
  show ?thesis by simp
qed

subsection \<open>The recent searches of the dashboard\<close>

lemma distinct_push:
  "distinct xs \<Longrightarrow> distinct (take 5 (t # filter (\<lambda>x. x \<noteq> t) xs))"
proof -
  assume "distinct xs"
  then have "distinct (t # filter (\<lambda>x. x \<noteq> t) xs)"
    by simp
  then show ?thesis
    by (rule distinct_take)
qed

lemma handleAnalyze_resume_recent:
  "recentSearches (fst (handleAnalyze_resume out s)) = recentSearches s"
  by (simp add: handleAnalyze_resume_def handleAnalyze_try_def handleAnalyze_catch_def
      handleAnalyze_finally_def split: fetch_outcome.splits option.splits)

lemma handleAnalyze_resume_ticker:
  "selectedTicker (fst (handleAnalyze_resume out s)) = selectedTicker s"
  by (simp add: handleAnalyze_resume_def handleAnalyze_try_def handleAnalyze_catch_def
      handleAnalyze_finally_def split: fetch_outcome.splits option.splits)

lemma handleAnalyze_resume_done:
  "\<not> isAnalyzing (fst (handleAnalyze_resume out s))"
  by (simp add: handleAnalyze_resume_def handleAnalyze_try_def handleAnalyze_catch_def
      handleAnalyze_finally_def split: fetch_outcome.splits option.splits)

lemma recent_inv_start: "recent_inv s \<Longrightarrow> recent_inv (handleAnalyze_start s)"
proof (cases "selectedTicker s = []")
  case True
  assume "recent_inv s"
  then show ?thesis using True by (simp add: recent_inv_def handleAnalyze_start_def)
next
  case False
  assume "recent_inv s"
  then have d: "distinct (recentSearches s)"
    by (simp add: recent_inv_def)
  have "recentSearches (handleAnalyze_start s) =
      take 5 (selectedTicker s # filter (\<lambda>t. t \<noteq> selectedTicker s) (recentSearches s))"
    using False by (simp add: handleAnalyze_start_def del: take_Cons_numeral)
  then show ?thesis using distinct_push [OF d, of "selectedTicker s"]
    by (simp add: recent_inv_def del: take_Cons_numeral)
qed

lemma recent_inv_step: "recent_inv s \<Longrightarrow> recent_inv (dashboard_step e s)"
proof (cases e)
  case (AnalyzeSettled out)
  assume "recent_inv s"
  then show ?thesis using AnalyzeSettled handleAnalyze_resume_recent [of out s]
    by (simp add: dashboard_step_def recent_inv_def)
next
  case ClickAnalyze
  assume "recent_inv s"
  then show ?thesis using ClickAnalyze recent_inv_start [of s]
    by (simp add: dashboard_step_def)
qed (simp_all add: dashboard_step_def recent_inv_def handleInputChange_def handleSetTicker_def)

lemma recent_inv_fold: "recent_inv s \<Longrightarrow> recent_inv (fold dashboard_step es s)"
  by (induction es arbitrary: s) (simp_all add: recent_inv_step)

lemma recent_inv_reachable: "recent_inv (fold dashboard_step es dashboard_init)"
  by (rule recent_inv_fold) (simp add: recent_inv_def dashboard_init_def)

lemma push_again:
  assumes "distinct xs" and "length xs \<le> 5" and "xs = t # rest"
  shows "take 5 (t # filter (\<lambda>x. x \<noteq> t) xs) = xs"
proof -
  have "t \<notin> set rest" using assms(1,3) by simp
  then have "filter (\<lambda>x. x \<noteq> t) rest = rest"
    by (auto simp: filter_id_conv)
  then show ?thesis using assms(2,3) by simp
qed

lemmas dashboard_defs = dashboard_step_def dashboard_init_def handleInputChange_def
  handleSetTicker_def handleAnalyze_start_def handleAnalyze_resume_def handleAnalyze_try_def
  handleAnalyze_catch_def handleAnalyze_finally_def res_ok_def

lemma example_dashboard_eq:
  "example_dashboard = \<lparr>selectedTicker = ''AAPL'', analyzedTicker = Some ''MSFT'',
     recentSearches = [''MSFT'', ''AAPL''], isAnalyzing = False, current_strategy = None,
     dashboard_toasts = [(ToastError, ''Failed to generate strategy.''),
                         (ToastError, ''Failed to generate strategy.'')]\<rparr>"
  by (simp add: example_dashboard_def dashboard_defs)

text \<open>
  C10. In every state the dashboard can reach, the recent searches have no duplicates and
  at most 5 entries. When the analyst button is clicked with a non-empty ticker, the list
  afterwards has no duplicates, at most 5 entries and the analyzed ticker first; and
  analyzing the same ticker again once the analysis has settled leaves the list as it is.
\<close>

theorem recentSearches_after_analyze:
  assumes "s = fold dashboard_step es dashboard_init"
  shows "distinct (recentSearches s) \<and> length (recentSearches s) \<le> 5 \<and>
         (\<not> isAnalyzing s \<and> selectedTicker s \<noteq> [] \<longrightarrow>
            distinct (recentSearches (dashboard_step ClickAnalyze s)) \<and>
            length (recentSearches (dashboard_step ClickAnalyze s)) \<le> 5 \<and>
            (\<exists>rest. recentSearches (dashboard_step ClickAnalyze s) = selectedTicker s # rest) \<and>
            recentSearches (fold dashboard_step [ClickAnalyze, AnalyzeSettled out, ClickAnalyze] s)
              = recentSearches (dashboard_step ClickAnalyze s))"
proof -
  have inv: "recent_inv s"
    using assms recent_inv_reachable by simp
  have inv': "recent_inv (dashboard_step ClickAnalyze s)"
    using inv by (rule recent_inv_step)
  have trig: "distinct (recentSearches (dashboard_step ClickAnalyze s)) \<and>
            length (recentSearches (dashboard_step ClickAnalyze s)) \<le> 5 \<and>
            (\<exists>rest. recentSearches (dashboard_step ClickAnalyze s) = selectedTicker s # rest) \<and>
            recentSearches (fold dashboard_step [ClickAnalyze, AnalyzeSettled out, ClickAnalyze] s)
              = recentSearches (dashboard_step ClickAnalyze s)"
    if idle: "\<not> isAnalyzing s" and tick: "selectedTicker s \<noteq> []"
  proof -
    let ?s1 = "dashboard_step ClickAnalyze s"
    let ?s2 = "dashboard_step (AnalyzeSettled out) ?s1"
    have s1: "?s1 = handleAnalyze_start s"
      using idle by (simp add: dashboard_step_def)
    have hd: "recentSearches ?s1 =
        selectedTicker s # take 4 (filter (\<lambda>t. t \<noteq> selectedTicker s) (recentSearches s))"
      using tick s1 by (simp add: handleAnalyze_start_def numeral_eq_Suc)
    have busy: "isAnalyzing ?s1" and same: "selectedTicker ?s1 = selectedTicker s"
      using tick s1 by (simp_all add: handleAnalyze_start_def)
    have s2: "?s2 = fst (handleAnalyze_resume out ?s1)"
      using busy by (simp add: dashboard_step_def)
    have r2: "recentSearches ?s2 = recentSearches ?s1"
      and t2: "selectedTicker ?s2 = selectedTicker s" and i2: "\<not> isAnalyzing ?s2"
      using s2 handleAnalyze_resume_recent [of out ?s1] handleAnalyze_resume_ticker [of out ?s1]
        handleAnalyze_resume_done [of out ?s1] same by simp_all
    have "recentSearches (dashboard_step ClickAnalyze ?s2) =
        take 5 (selectedTicker s # filter (\<lambda>t. t \<noteq> selectedTicker s) (recentSearches ?s1))"
      using i2 t2 r2 tick by (simp add: dashboard_step_def handleAnalyze_start_def)
    also have "\<dots> = recentSearches ?s1"
      using inv' hd by (intro push_again) (simp_all add: recent_inv_def)
    finally have again: "recentSearches (dashboard_step ClickAnalyze ?s2) = recentSearches ?s1" .
    show ?thesis using inv' hd again by (simp add: recent_inv_def)
  qed
  show ?thesis using inv trig by (simp add: recent_inv_def)
qed

theorem recentSearches_after_analyze_witness:
  "\<not> isAnalyzing example_dashboard \<and> selectedTicker example_dashboard \<noteq> [] \<and>
   recentSearches example_dashboard = [''MSFT'', ''AAPL''] \<and>
   recentSearches (dashboard_step ClickAnalyze example_dashboard) = [''AAPL'', ''MSFT''] \<and>
   recentSearches (fold dashboard_step [ClickAnalyze, AnalyzeSettled FetchRejected, ClickAnalyze]
     example_dashboard) = [''AAPL'', ''MSFT'']"
proof -
  have idle: "\<not> isAnalyzing example_dashboard" and tick: "selectedTicker example_dashboard \<noteq> []"
    by (simp_all add: example_dashboard_eq)
  have now: "recentSearches (dashboard_step ClickAnalyze example_dashboard) = [''AAPL'', ''MSFT'']"
    by (simp add: example_dashboard_eq dashboard_step_def handleAnalyze_start_def)
  from recentSearches_after_analyze [OF example_dashboard_def, of FetchRejected] idle tick now
  show ?thesis by (simp add: example_dashboard_eq)
qed

end
